theory Spec2Isabelle
  imports Complex_Main
begin

section \<open>Data model\<close>

text \<open>
  The three SQLAlchemy models of \<^verbatim>\<open>backend/main.py\<close> as records. A UUID is a
  number, a \<^verbatim>\<open>datetime\<close> is a number of seconds, an embedding is a list of reals,
  and a JSON value is one of the three shapes the handlers touch. The field names are
  the column names; where two tables share a column name the table is prefixed.
\<close>

type_synonym uuid = nat
type_synonym datetime = int

datatype json = JNull | JInt int | JStr string

record user =
  user_id :: uuid
  username :: string
  email :: string
  password_hash :: string
  created_at :: datetime

record document =
  doc_id :: uuid
  doc_user_id :: uuid
  filename :: string
  uploaded_on :: datetime
  expiry_date :: "datetime option"
  status :: string
  risk_score :: string

record chunk =
  chunk_id :: uuid
  chunk_doc_id :: uuid
  chunk_user_id :: uuid
  text_chunk :: string
  embedding :: "real list"
  metadata :: "(string \<times> json) list"
  page_number :: json
  chunk_created_at :: datetime

text \<open>
  Every \<^verbatim>\<open>raise\<close> of the handlers is a value: \<open>HTTPException\<close> with its status
  code and detail, and the exceptions that escape a handler uncaught (a constraint the
  database refuses, a vector of the wrong dimension, an attribute read on \<^verbatim>\<open>None\<close>).
\<close>

datatype error =
    HTTPException nat string
  | IntegrityError
  | DataError
  | AttributeError

section \<open>The store and the SQLAlchemy session\<close>

text \<open>
  A table is the list of its rows in storage order (the order of insertion); a query
  without \<^verbatim>\<open>order_by\<close> returns rows in that order.
\<close>

record db =
  users :: "user list"
  documents :: "document list"
  chunks :: "chunk list"

definition empty_db :: db where
  "empty_db = \<lparr>users = [], documents = [], chunks = []\<rparr>"

definition db_append :: "db \<Rightarrow> db \<Rightarrow> db" where
  "db_append a b =
     \<lparr>users = users a @ users b,
      documents = documents a @ documents b,
      chunks = chunks a @ chunks b\<rparr>"

datatype row = UserRow user | DocumentRow document | ChunkRow chunk

text \<open>
  The constraints the column declarations put on an INSERT: primary keys and the
  \<^verbatim>\<open>unique=True\<close> email are unique, foreign keys point at an existing row, and an
  embedding has the 384 dimensions of \<^verbatim>\<open>Vector(384)\<close>.
\<close>

fun check_row :: "db \<Rightarrow> row \<Rightarrow> error option" where
  "check_row v (UserRow u) =
     (if user_id u \<in> set (map user_id (users v)) \<or> email u \<in> set (map email (users v))
      then Some IntegrityError else None)"
| "check_row v (DocumentRow d) =
     (if doc_id d \<in> set (map doc_id (documents v))
         \<or> doc_user_id d \<notin> set (map user_id (users v))
      then Some IntegrityError else None)"
| "check_row v (ChunkRow c) =
     (if length (embedding c) \<noteq> 384 then Some DataError
      else if chunk_id c \<in> set (map chunk_id (chunks v))
         \<or> chunk_doc_id c \<notin> set (map doc_id (documents v))
         \<or> chunk_user_id c \<notin> set (map user_id (users v))
      then Some IntegrityError else None)"

fun add_row :: "db \<Rightarrow> row \<Rightarrow> db" where
  "add_row d (UserRow u) = d\<lparr>users := users d @ [u]\<rparr>"
| "add_row d (DocumentRow x) = d\<lparr>documents := documents d @ [x]\<rparr>"
| "add_row d (ChunkRow c) = d\<lparr>chunks := chunks d @ [c]\<rparr>"

text \<open>
  A session (\<^verbatim>\<open>SessionLocal()\<close>, with \<^verbatim>\<open>autocommit=False, autoflush=False\<close>) holds
  the committed store, the rows its open transaction has inserted and not yet
  committed, and the objects given to \<^verbatim>\<open>db.add\<close> and not yet flushed.
\<close>

record session =
  store :: db
  txn :: db
  pending :: "row list"

definition SessionLocal :: "db \<Rightarrow> session" where
  "SessionLocal d = \<lparr>store = d, txn = empty_db, pending = []\<rparr>"

definition db_view :: "session \<Rightarrow> db" where
  "db_view s = db_append (store s) (txn s)"

definition db_add :: "session \<Rightarrow> row \<Rightarrow> session" where
  "db_add s r = s\<lparr>pending := pending s @ [r]\<rparr>"

fun flush_rows :: "db \<Rightarrow> db \<Rightarrow> row list \<Rightarrow> error + db" where
  "flush_rows st tx [] = Inr tx"
| "flush_rows st tx (r # rs) =
     (case check_row (db_append st tx) r of
        Some e \<Rightarrow> Inl e
      | None \<Rightarrow> flush_rows st (add_row tx r) rs)"

text \<open>A flush that fails rolls the open transaction back and raises.\<close>

definition db_flush :: "session \<Rightarrow> error option \<times> session" where
  "db_flush s =
     (case flush_rows (store s) (txn s) (pending s) of
        Inl e \<Rightarrow> (Some e, s\<lparr>txn := empty_db, pending := []\<rparr>)
      | Inr tx \<Rightarrow> (None, s\<lparr>txn := tx, pending := []\<rparr>))"

definition db_commit :: "session \<Rightarrow> error option \<times> session" where
  "db_commit s =
     (case db_flush s of
        (Some e, s') \<Rightarrow> (Some e, s')
      | (None, s') \<Rightarrow>
          (None, s'\<lparr>store := db_append (store s') (txn s'), txn := empty_db\<rparr>))"

text \<open>
  \<^verbatim>\<open>get_db\<close> closes the session in its \<^verbatim>\<open>finally\<close>, whether the handler returned
  or raised: what was not committed is rolled back, and the store is what remains.
\<close>

definition db_close :: "session \<Rightarrow> db" where
  "db_close s = store s"

definition get_db :: "(session \<Rightarrow> 'a \<times> session) \<Rightarrow> db \<Rightarrow> 'a \<times> db" where
  "get_db handler d = (case handler (SessionLocal d) of (r, s) \<Rightarrow> (r, db_close s))"

section \<open>External capabilities and the request environment\<close>

text \<open>
  \<^verbatim>\<open>bcrypt\<close> and \<^verbatim>\<open>jwt\<close> are opaque: the handlers receive them as a record of
  functions. \<open>jwt_decode\<close> is \<open>None\<close> where \<^verbatim>\<open>jwt.decode\<close> raises a
  \<^verbatim>\<open>PyJWTError\<close>.
\<close>

record payload =
  sub :: "uuid option"
  exp_time :: datetime

record crypto =
  hashpw :: "string \<Rightarrow> string \<Rightarrow> string"
  checkpw :: "string \<Rightarrow> string \<Rightarrow> bool"
  jwt_encode :: "payload \<Rightarrow> string \<Rightarrow> string"
  jwt_decode :: "string \<Rightarrow> string \<Rightarrow> payload option"

definition JWT_SECRET :: string where
  "JWT_SECRET = ''your-super-secure-secret''"

text \<open>
  What a request draws from outside the program: the values of \<^verbatim>\<open>uuid.uuid4()\<close>,
  \<^verbatim>\<open>datetime.utcnow()\<close>, \<^verbatim>\<open>np.random.rand(384)\<close> and \<^verbatim>\<open>bcrypt.gensalt()\<close>, each
  named by the place that draws it.
\<close>

record env =
  parse_uuid :: "nat \<Rightarrow> uuid"
  parse_rand :: "nat \<Rightarrow> real list"
  new_user_id :: uuid
  new_doc_id :: uuid
  new_chunk_id :: "nat \<Rightarrow> uuid"
  user_now :: datetime
  doc_now :: datetime
  chunk_now :: "nat \<Rightarrow> datetime"
  token_now :: datetime
  gensalt :: string
  query_rand :: "real list"

section \<open>Authentication\<close>

definition get_current_user :: "crypto \<Rightarrow> db \<Rightarrow> string \<Rightarrow> error + user" where
  "get_current_user cr d credentials =
     (case jwt_decode cr credentials JWT_SECRET of
        None \<Rightarrow> Inl (HTTPException 401 ''Invalid token'')
      | Some p \<Rightarrow>
          (case sub p of
             None \<Rightarrow> Inl (HTTPException 401 ''Invalid token'')
           | Some uid \<Rightarrow>
               (case find (\<lambda>u. user_id u = uid) (users d) of
                  None \<Rightarrow> Inl (HTTPException 401 ''User not found'')
                | Some u \<Rightarrow> Inr u)))"

record user_info =
  ui_id :: uuid
  ui_username :: string
  ui_email :: string

record auth_response =
  token :: string
  auth_user :: user_info

definition issue_token :: "crypto \<Rightarrow> env \<Rightarrow> uuid \<Rightarrow> string" where
  "issue_token cr e uid =
     jwt_encode cr \<lparr>sub = Some uid, exp_time = token_now e + 7 * 86400\<rparr> JWT_SECRET"

definition signup_session ::
  "crypto \<Rightarrow> env \<Rightarrow> string \<Rightarrow> string \<Rightarrow> string \<Rightarrow> session \<Rightarrow> (error + auth_response) \<times> session"
where
  "signup_session cr e uname mail password s =
     (case find (\<lambda>u. email u = mail) (users (db_view s)) of
        Some existing_user \<Rightarrow> (Inl (HTTPException 400 ''Email already registered''), s)
      | None \<Rightarrow>
          (let u = \<lparr>user_id = new_user_id e, username = uname, email = mail,
                    password_hash = hashpw cr password (gensalt e),
                    created_at = user_now e\<rparr>;
               s1 = db_add s (UserRow u)
           in case db_commit s1 of
                (Some err, s2) \<Rightarrow> (Inl err, s2)
              | (None, s2) \<Rightarrow>
                  (Inr \<lparr>token = issue_token cr e (user_id u),
                        auth_user = \<lparr>ui_id = user_id u, ui_username = uname,
                                     ui_email = mail\<rparr>\<rparr>, s2)))"

definition signup ::
  "crypto \<Rightarrow> env \<Rightarrow> db \<Rightarrow> string \<Rightarrow> string \<Rightarrow> string \<Rightarrow> (error + auth_response) \<times> db"
where
  "signup cr e d uname mail password = get_db (signup_session cr e uname mail password) d"


section \<open>Ingestion\<close>

record upload_file =
  content_type :: string
  file_filename :: string
  file_content :: "nat list"

record chunk_data =
  cd_chunk_id :: uuid
  cd_text :: string
  cd_embedding :: "real list"
  cd_metadata :: "(string \<times> json) list"

record parse_result =
  pr_document_id :: uuid
  pr_chunks :: "chunk_data list"

text \<open>
  \<^verbatim>\<open>mock_llamacloud_parse\<close>: two fixed chunks, on pages 2 and 5, with drawn
  identifiers and embeddings. The mock never raises.
\<close>

definition mock_llamacloud_parse :: "env \<Rightarrow> nat list \<Rightarrow> string \<Rightarrow> error + parse_result" where
  "mock_llamacloud_parse e content fname =
     Inr \<lparr>pr_document_id = parse_uuid e 0,
          pr_chunks =
            [\<lparr>cd_chunk_id = parse_uuid e 1,
              cd_text = ''Termination clause: Either party may terminate with 90 days' notice.'',
              cd_embedding = parse_rand e 0,
              cd_metadata = [(''page'', JInt 2), (''contract_name'', JStr fname)]\<rparr>,
             \<lparr>cd_chunk_id = parse_uuid e 2,
              cd_text = ''Liability cap: Limited to 12 months' fees.'',
              cd_embedding = parse_rand e 1,
              cd_metadata = [(''page'', JInt 5), (''contract_name'', JStr fname)]\<rparr>]\<rparr>"

definition allowed_content_types :: "string list" where
  "allowed_content_types =
     [''application/pdf'', ''text/plain'',
      ''application/vnd.openxmlformats-officedocument.wordprocessingml.document'']"

text \<open>\<^verbatim>\<open>chunk_data["metadata"].get("page", 1)\<close>\<close>

definition get_page :: "(string \<times> json) list \<Rightarrow> json" where
  "get_page m = (case map_of m ''page'' of None \<Rightarrow> JInt 1 | Some v \<Rightarrow> v)"

definition make_chunk :: "env \<Rightarrow> document \<Rightarrow> user \<Rightarrow> nat \<Rightarrow> chunk_data \<Rightarrow> chunk" where
  "make_chunk e d current_user i cd =
     \<lparr>chunk_id = new_chunk_id e i,
      chunk_doc_id = doc_id d,
      chunk_user_id = user_id current_user,
      text_chunk = cd_text cd,
      embedding = cd_embedding cd,
      metadata = cd_metadata cd,
      page_number = get_page (cd_metadata cd),
      chunk_created_at = chunk_now e i\<rparr>"

text \<open>The loop \<^verbatim>\<open>for chunk_data in parse_result["chunks"]\<close>; \<open>i\<close> counts the rows built.\<close>

fun add_chunks :: "env \<Rightarrow> document \<Rightarrow> user \<Rightarrow> nat \<Rightarrow> chunk_data list \<Rightarrow> session \<Rightarrow> session" where
  "add_chunks e d current_user i [] s = s"
| "add_chunks e d current_user i (cd # cds) s =
     add_chunks e d current_user (Suc i) cds
       (db_add s (ChunkRow (make_chunk e d current_user i cd)))"

record upload_response =
  up_document_id :: uuid
  up_filename :: string
  chunks_processed :: nat

definition new_document :: "env \<Rightarrow> upload_file \<Rightarrow> user \<Rightarrow> document" where
  "new_document e file current_user =
     \<lparr>doc_id = new_doc_id e,
      doc_user_id = user_id current_user,
      filename = file_filename file,
      uploaded_on = doc_now e,
      expiry_date = None,
      status = ''Active'',
      risk_score = ''Low''\<rparr>"

text \<open>
  The handler takes the parsing capability as an argument, so that what it does with a
  parse result is stated for every parse result; the route is the handler at the mock.
\<close>

definition upload_session ::
  "(env \<Rightarrow> nat list \<Rightarrow> string \<Rightarrow> error + parse_result) \<Rightarrow> env \<Rightarrow> upload_file \<Rightarrow> user
     \<Rightarrow> session \<Rightarrow> (error + upload_response) \<times> session"
where
  "upload_session parse e file current_user s =
     (if content_type file \<notin> set allowed_content_types
      then (Inl (HTTPException 400 ''Unsupported file type''), s)
      else
        (case parse e (file_content file) (file_filename file) of
           Inl err \<Rightarrow> (Inl err, s)
         | Inr pr \<Rightarrow>
             (let d = new_document e file current_user;
                  s1 = db_add s (DocumentRow d)
              in case db_flush s1 of
                   (Some err, s2) \<Rightarrow> (Inl err, s2)
                 | (None, s2) \<Rightarrow>
                     (let s3 = add_chunks e d current_user 0 (pr_chunks pr) s2
                      in case db_commit s3 of
                           (Some err, s4) \<Rightarrow> (Inl err, s4)
                         | (None, s4) \<Rightarrow>
                             (Inr \<lparr>up_document_id = doc_id d,
                                   up_filename = file_filename file,
                                   chunks_processed = length (pr_chunks pr)\<rparr>, s4)))))"

definition upload_with ::
  "(env \<Rightarrow> nat list \<Rightarrow> string \<Rightarrow> error + parse_result) \<Rightarrow> env \<Rightarrow> db \<Rightarrow> upload_file \<Rightarrow> user
     \<Rightarrow> (error + upload_response) \<times> db"
where
  "upload_with parse e d file current_user =
     get_db (upload_session parse e file current_user) d"

definition upload_contract ::
  "env \<Rightarrow> db \<Rightarrow> upload_file \<Rightarrow> user \<Rightarrow> (error + upload_response) \<times> db" where
  "upload_contract = upload_with mock_llamacloud_parse"

section \<open>Reading documents\<close>

record contract_summary =
  cs_id :: uuid
  cs_name :: string
  cs_uploaded_on :: datetime
  cs_status :: string
  cs_risk_score :: string

definition summary_of :: "document \<Rightarrow> contract_summary" where
  "summary_of doc =
     \<lparr>cs_id = doc_id doc, cs_name = filename doc, cs_uploaded_on = uploaded_on doc,
      cs_status = status doc, cs_risk_score = risk_score doc\<rparr>"

definition list_contracts :: "db \<Rightarrow> user \<Rightarrow> contract_summary list" where
  "list_contracts d current_user =
     map summary_of (filter (\<lambda>doc. doc_user_id doc = user_id current_user) (documents d))"

record chunk_view =
  cv_id :: uuid
  cv_text :: string
  cv_page :: json
  cv_metadata :: "(string \<times> json) list"

record contract_detail =
  cd_id :: uuid
  cd_name :: string
  cd_status :: string
  cd_risk_score :: string
  cd_chunks :: "chunk_view list"

definition chunk_view_of :: "chunk \<Rightarrow> chunk_view" where
  "chunk_view_of c =
     \<lparr>cv_id = chunk_id c, cv_text = text_chunk c, cv_page = page_number c,
      cv_metadata = metadata c\<rparr>"

text \<open>
  The route takes \<open>contract_id\<close> as a string and compares it with the UUID column
  \<open>doc_id\<close>, so the database first reads the string as a uuid. \<open>uuid_in\<close> is that
  reading, as PostgreSQL's input routine for the type does it: an optional opening
  brace, sixteen bytes of two hexadecimal digits each, a hyphen allowed after every
  second byte but the last, the closing brace if there was an opening one, and nothing
  after. It is \<open>None\<close> where the database raises on the text.
\<close>

definition xdigit :: "char \<Rightarrow> nat option" where
  "xdigit c =
     map_of
       [(CHR ''0'', 0), (CHR ''1'', 1), (CHR ''2'', 2), (CHR ''3'', 3), (CHR ''4'', 4),
        (CHR ''5'', 5), (CHR ''6'', 6), (CHR ''7'', 7), (CHR ''8'', 8), (CHR ''9'', 9),
        (CHR ''a'', 10), (CHR ''b'', 11), (CHR ''c'', 12), (CHR ''d'', 13), (CHR ''e'', 14),
        (CHR ''f'', 15), (CHR ''A'', 10), (CHR ''B'', 11), (CHR ''C'', 12), (CHR ''D'', 13),
        (CHR ''E'', 14), (CHR ''F'', 15)] c"

text \<open>The loop over the byte positions; \<open>acc\<close> is the value of the bytes read so far.\<close>

fun uuid_loop :: "nat list \<Rightarrow> nat \<Rightarrow> string \<Rightarrow> (nat \<times> string) option" where
  "uuid_loop [] acc src = Some (acc, src)"
| "uuid_loop (i # positions) acc (a # b # src) =
     (case xdigit a of
        None \<Rightarrow> None
      | Some x \<Rightarrow>
          (case xdigit b of
             None \<Rightarrow> None
           | Some y \<Rightarrow>
               uuid_loop positions (acc * 256 + (x * 16 + y))
                 (if src \<noteq> [] \<and> hd src = CHR ''-'' \<and> odd i \<and> i < 15 then tl src else src)))"
| "uuid_loop (i # positions) acc src = None"

definition uuid_in :: "string \<Rightarrow> uuid option" where
  "uuid_in source =
     (let braces = (source \<noteq> [] \<and> hd source = CHR ''{'');
          src = (if braces then tl source else source)
      in case uuid_loop [0..<16] 0 src of
           None \<Rightarrow> None
         | Some (v, rest) \<Rightarrow>
             if braces then (if rest = ''}'' then Some v else None)
             else (if rest = [] then Some v else None))"

text \<open>
  The error the database raises on a text that is no uuid is caught nowhere in the
  handler: it leaves it as \<open>DataError\<close>.
\<close>

definition get_contract :: "db \<Rightarrow> user \<Rightarrow> string \<Rightarrow> error + contract_detail" where
  "get_contract d current_user contract_id =
     (case uuid_in contract_id of
        None \<Rightarrow> Inl DataError
      | Some k \<Rightarrow>
          (case find (\<lambda>doc. doc_id doc = k \<and> doc_user_id doc = user_id current_user)
                  (documents d) of
             None \<Rightarrow> Inl (HTTPException 404 ''Contract not found'')
           | Some doc \<Rightarrow>
               Inr \<lparr>cd_id = doc_id doc, cd_name = filename doc, cd_status = status doc,
                    cd_risk_score = risk_score doc,
                    cd_chunks = map chunk_view_of
                                  (filter (\<lambda>c. chunk_doc_id c = doc_id doc) (chunks d))\<rparr>))"

section \<open>Question answering\<close>

record source =
  contract_name :: string
  excerpt :: string
  page :: json
  relevance :: int

record ask_response =
  answer :: string
  confidence :: int
  sources :: "source list"

text \<open>
  \<^verbatim>\<open>chunk.document\<close> loads the row the chunk's \<open>doc_id\<close> points at; reading
  \<^verbatim>\<open>.filename\<close> of a missing one raises.
\<close>

definition chunk_document :: "db \<Rightarrow> chunk \<Rightarrow> document option" where
  "chunk_document d c = find (\<lambda>doc. doc_id doc = chunk_doc_id c) (documents d)"

text \<open>The comprehension over \<^verbatim>\<open>enumerate(chunks[:3])\<close>; \<open>i\<close> is the running index.\<close>

fun build_sources :: "db \<Rightarrow> int \<Rightarrow> chunk list \<Rightarrow> error + source list" where
  "build_sources d i [] = Inr []"
| "build_sources d i (c # cs) =
     (case chunk_document d c of
        None \<Rightarrow> Inl AttributeError
      | Some doc \<Rightarrow>
          (case build_sources d (i + 1) cs of
             Inl err \<Rightarrow> Inl err
           | Inr rest \<Rightarrow>
               Inr (\<lparr>contract_name = filename doc, excerpt = text_chunk c,
                     page = page_number c, relevance = 85 + i * 3\<rparr> # rest)))"

definition answer_text :: "string \<Rightarrow> string" where
  "answer_text query =
     ''Based on your contracts, here's what I found regarding '' @ [CHR 0x27] @ query
       @ [CHR 0x27] @ '': ''
       @ ''Your contracts contain several relevant clauses. The most important considerations are ''
       @ ''termination procedures, liability limitations, and renewal terms.''"

definition user_chunks :: "db \<Rightarrow> user \<Rightarrow> chunk list" where
  "user_chunks d current_user =
     take 5 (filter (\<lambda>c. chunk_user_id c = user_id current_user) (chunks d))"

definition query_contracts :: "env \<Rightarrow> db \<Rightarrow> user \<Rightarrow> string \<Rightarrow> error + ask_response" where
  "query_contracts e d current_user query =
     (let query_embedding = query_rand e;
          cs = user_chunks d current_user
      in case build_sources d 0 (take 3 cs) of
           Inl err \<Rightarrow> Inl err
         | Inr srcs \<Rightarrow>
             Inr \<lparr>answer = answer_text query, confidence = 94, sources = srcs\<rparr>)"

section \<open>Invariants and reachable stores\<close>

text \<open>The rows the loop of \<^verbatim>\<open>upload_contract\<close> builds from a list of parsed chunks.\<close>

definition chunk_rows :: "env \<Rightarrow> document \<Rightarrow> user \<Rightarrow> nat \<Rightarrow> chunk_data list \<Rightarrow> chunk list" where
  "chunk_rows e d current_user i cds =
     map (\<lambda>(k, cd). make_chunk e d current_user k cd) (enumerate i cds)"

text \<open>
  Document identifiers are unique, and every chunk's document (the row
  \<^verbatim>\<open>chunk.document\<close> resolves to) exists and has the chunk's owner.
\<close>

definition db_inv :: "db \<Rightarrow> bool" where
  "db_inv d \<longleftrightarrow>
     distinct (map doc_id (documents d)) \<and>
     (\<forall>c \<in> set (chunks d).
        case chunk_document d c of
          None \<Rightarrow> False
        | Some doc \<Rightarrow> doc_user_id doc = chunk_user_id c)"

text \<open>
  The stores the writing routes can produce from the empty one: \<^verbatim>\<open>/api/signup\<close>, and
  \<^verbatim>\<open>/api/upload\<close> by a user whom \<open>get_current_user\<close> accepted, with any parsing
  capability. The other routes do not write.
\<close>

inductive reachable :: "crypto \<Rightarrow> db \<Rightarrow> bool" for cr :: crypto where
  reach_init: "reachable cr empty_db"
| reach_signup:
    "reachable cr d \<Longrightarrow> reachable cr (snd (signup cr e d uname mail password))"
| reach_upload:
    "reachable cr d \<Longrightarrow> get_current_user cr d credentials = Inr u
       \<Longrightarrow> reachable cr (snd (upload_with parse e d file u))"

section \<open>Concrete inputs\<close>

text \<open>Small inputs on which the theorems below are run.\<close>

definition demo_crypto :: crypto where
  "demo_crypto =
     \<lparr>hashpw = (\<lambda>password salt. salt @ password),
      checkpw = (\<lambda>password hashed. hashed = ''salt'' @ password),
      jwt_encode = (\<lambda>p secret. ''token''),
      jwt_decode = (\<lambda>credentials secret.
         if credentials = ''alice-token'' then Some \<lparr>sub = Some 1, exp_time = 0\<rparr>
         else if credentials = ''bob-token'' then Some \<lparr>sub = Some 2, exp_time = 0\<rparr>
         else None)\<rparr>"

definition demo_env :: "uuid \<Rightarrow> datetime \<Rightarrow> env" where
  "demo_env k t =
     \<lparr>parse_uuid = (\<lambda>i. 1000 + 10 * k + i),
      parse_rand = (\<lambda>i. replicate 384 0),
      new_user_id = k,
      new_doc_id = k,
      new_chunk_id = (\<lambda>i. 10 * k + i),
      user_now = t,
      doc_now = t,
      chunk_now = (\<lambda>i. t),
      token_now = t,
      gensalt = ''salt'',
      query_rand = replicate 384 0\<rparr>"

definition alice :: user where
  "alice = \<lparr>user_id = 1, username = ''alice'', email = ''a@x.com'',
            password_hash = ''saltpw1'', created_at = 0\<rparr>"

definition bob :: user where
  "bob = \<lparr>user_id = 2, username = ''bob'', email = ''b@x.com'',
          password_hash = ''saltpw2'', created_at = 0\<rparr>"

definition users_db :: db where
  "users_db = \<lparr>users = [alice, bob], documents = [], chunks = []\<rparr>"

definition lease_pdf :: upload_file where
  "lease_pdf = \<lparr>content_type = ''application/pdf'', file_filename = ''lease.pdf'',
                file_content = []\<rparr>"

text \<open>A parsing capability whose one chunk has no page and a vector of three dimensions.\<close>

definition short_vector_parse :: "env \<Rightarrow> nat list \<Rightarrow> string \<Rightarrow> error + parse_result" where
  "short_vector_parse e content fname =
     Inr \<lparr>pr_document_id = 0,
          pr_chunks = [\<lparr>cd_chunk_id = 0, cd_text = ''clause'', cd_embedding = [1, 2, 3],
                        cd_metadata = [(''contract_name'', JStr fname)]\<rparr>]\<rparr>"

text \<open>A parsing capability whose first chunk has no page and whose second is on page 7.\<close>

definition pageless_parse :: "env \<Rightarrow> nat list \<Rightarrow> string \<Rightarrow> error + parse_result" where
  "pageless_parse e content fname =
     Inr \<lparr>pr_document_id = 0,
          pr_chunks = [\<lparr>cd_chunk_id = 0, cd_text = ''clause'', cd_embedding = replicate 384 0,
                        cd_metadata = [(''contract_name'', JStr fname)]\<rparr>,
                       \<lparr>cd_chunk_id = 1, cd_text = ''annex'', cd_embedding = replicate 384 0,
                        cd_metadata = [(''page'', JInt 7)]\<rparr>]\<rparr>"


text \<open>The store after Alice has uploaded \<open>lease_pdf\<close>.\<close>

definition lease_db :: db where
  "lease_db = snd (upload_contract (demo_env 7 100) users_db lease_pdf alice)"

text \<open>
  The stores after Alice has uploaded the file twice more: first with the clock at 150,
  then with the clock stepped back to 120.
\<close>

definition pair_db :: db where
  "pair_db = snd (upload_contract (demo_env 8 150) lease_db lease_pdf alice)"

definition clock_db :: db where
  "clock_db = snd (upload_contract (demo_env 9 120) pair_db lease_pdf alice)"

section \<open>The session\<close>

lemma flush_rows_ok: "flush_rows st tx rs = Inr tx' \<Longrightarrow> tx' = foldl add_row tx rs"
  by (induction rs arbitrary: tx) (auto split: option.splits)

lemma store_db_flush: "store (snd (db_flush s)) = store s"
  by (simp add: db_flush_def split: sum.splits)

lemma db_commit_fail: "db_commit s = (Some err, s') \<Longrightarrow> store s' = store s"
  using store_db_flush [of s]
  by (auto simp: db_commit_def split: prod.splits option.splits)

lemma db_commit_ok:
  "db_commit s = (None, s') \<Longrightarrow>
     flush_rows (store s) (txn s) (pending s) = Inr (foldl add_row (txn s) (pending s))
     \<and> store s' = db_append (store s) (foldl add_row (txn s) (pending s))"
  by (auto simp: db_commit_def db_flush_def split: prod.splits option.splits sum.splits
           dest: flush_rows_ok)

lemma db_flush_ok:
  "db_flush s = (None, s') \<Longrightarrow>
     flush_rows (store s) (txn s) (pending s) = Inr (foldl add_row (txn s) (pending s))
     \<and> s' = s\<lparr>txn := foldl add_row (txn s) (pending s), pending := []\<rparr>"
  by (auto simp: db_flush_def split: sum.splits dest: flush_rows_ok)

lemma add_chunks_eq:
  "add_chunks e d cu i cds s = s\<lparr>pending := pending s @ map ChunkRow (chunk_rows e d cu i cds)\<rparr>"
  by (induction cds arbitrary: i s) (auto simp: chunk_rows_def db_add_def)

lemma foldl_add_chunk_rows:
  "foldl add_row tx (map ChunkRow cs) = tx\<lparr>chunks := chunks tx @ cs\<rparr>"
  by (induction cs arbitrary: tx) auto

lemma store_db_add: "store (db_add s r) = store s"
  by (simp add: db_add_def)

lemma store_add_chunks: "store (add_chunks e d cu i cds s) = store s"
  by (simp add: add_chunks_eq)

lemma db_append_empty [simp]: "db_append d empty_db = d"
  by (simp add: db_append_def empty_db_def)

section \<open>Ingestion is one transaction\<close>

lemma upload_session_fail:
  assumes "upload_session parse e file cu s = (Inl err, s')"
  shows "store s' = store s"
proof (cases "content_type file \<in> set allowed_content_types")
  case False
  with assms show ?thesis by (simp add: upload_session_def)
next
  case ct: True
  show ?thesis
  proof (cases "parse e (file_content file) (file_filename file)")
    case (Inl perr)
    with assms ct show ?thesis by (simp add: upload_session_def)
  next
    case (Inr pr)
    define d where "d = new_document e file cu"
    obtain r2 s2 where f: "db_flush (db_add s (DocumentRow d)) = (r2, s2)"
      by (cases "db_flush (db_add s (DocumentRow d))")
    have st2: "store s2 = store s"
      using store_db_flush [of "db_add s (DocumentRow d)"] f by (simp add: store_db_add)
    show ?thesis
    proof (cases r2)
      case (Some ferr)
      with assms ct Inr f st2 show ?thesis
        by (simp add: upload_session_def d_def)
    next
      case None
      obtain r4 s4 where c: "db_commit (add_chunks e d cu 0 (pr_chunks pr) s2) = (r4, s4)"
        by (cases "db_commit (add_chunks e d cu 0 (pr_chunks pr) s2)")
      show ?thesis
      proof (cases r4)
        case (Some cerr)
        with c have "store s4 = store (add_chunks e d cu 0 (pr_chunks pr) s2)"
          by (simp add: db_commit_fail)
        with assms ct Inr f None c Some st2 show ?thesis
          by (simp add: upload_session_def d_def store_add_chunks)
      next
        case n4: None
        with assms ct Inr f None c show ?thesis
          by (simp add: upload_session_def d_def)
      qed
    qed
  qed
qed

lemma upload_with_fail:
  "upload_with parse e d file cu = (Inl err, d') \<Longrightarrow> d' = d"
  by (auto simp: upload_with_def get_db_def db_close_def SessionLocal_def
           split: prod.splits dest!: upload_session_fail)

lemma upload_with_ok:
  assumes "upload_with parse e d file cu = (Inr r, d')"
  shows "\<exists>pr. content_type file \<in> set allowed_content_types
      \<and> parse e (file_content file) (file_filename file) = Inr pr
      \<and> new_doc_id e \<notin> set (map doc_id (documents d))
      \<and> user_id cu \<in> set (map user_id (users d))
      \<and> r = \<lparr>up_document_id = new_doc_id e, up_filename = file_filename file,
              chunks_processed = length (pr_chunks pr)\<rparr>
      \<and> d' = \<lparr>users = users d,
               documents = documents d @ [new_document e file cu],
               chunks = chunks d @ chunk_rows e (new_document e file cu) cu 0 (pr_chunks pr)\<rparr>"
proof -
  define s where "s = SessionLocal d"
  obtain s' where us: "upload_session parse e file cu s = (Inr r, s')" and d': "d' = store s'"
    using assms by (auto simp: upload_with_def get_db_def db_close_def s_def split: prod.splits)
  have s0: "store s = d" "txn s = empty_db" "pending s = []"
    by (simp_all add: s_def SessionLocal_def)
  show ?thesis
  proof (cases "content_type file \<in> set allowed_content_types")
    case False
    with us show ?thesis by (simp add: upload_session_def)
  next
    case ct: True
    show ?thesis
    proof (cases "parse e (file_content file) (file_filename file)")
      case (Inl perr)
      with us ct show ?thesis by (simp add: upload_session_def)
    next
      case (Inr pr)
      define doc where "doc = new_document e file cu"
      obtain r2 s2 where f: "db_flush (db_add s (DocumentRow doc)) = (r2, s2)"
        by (cases "db_flush (db_add s (DocumentRow doc))")
      show ?thesis
      proof (cases r2)
        case (Some ferr)
        with us ct Inr f show ?thesis
          by (simp add: upload_session_def doc_def)
      next
        case None
        note fl = db_flush_ok [OF f [unfolded None]]
        have chk: "check_row d (DocumentRow doc) = None"
          using fl s0 by (simp add: db_add_def split: if_splits)
        have s2: "store s2 = d" "txn s2 = add_row empty_db (DocumentRow doc)" "pending s2 = []"
          using fl s0 by (simp_all add: db_add_def)
        obtain r4 s4 where c: "db_commit (add_chunks e doc cu 0 (pr_chunks pr) s2) = (r4, s4)"
          by (cases "db_commit (add_chunks e doc cu 0 (pr_chunks pr) s2)")
        show ?thesis
        proof (cases r4)
          case (Some cerr)
          with us ct Inr f None c show ?thesis
            by (simp add: upload_session_def doc_def)
        next
          case n4: None
          note cm = db_commit_ok [OF c [unfolded n4]]
          from us ct Inr f None c n4
          have r: "r = \<lparr>up_document_id = doc_id doc, up_filename = file_filename file,
                chunks_processed = length (pr_chunks pr)\<rparr>" and s': "s' = s4"
            by (simp_all add: upload_session_def doc_def)
          have st: "store s4 = \<lparr>users = users d, documents = documents d @ [doc],
                     chunks = chunks d @ chunk_rows e doc cu 0 (pr_chunks pr)\<rparr>"
            using cm by (simp add: s2 add_chunks_eq foldl_add_chunk_rows db_append_def empty_db_def)
          have "doc_id doc \<notin> set (map doc_id (documents d))"
            and "doc_user_id doc \<in> set (map user_id (users d))"
            using chk by (simp_all split: if_splits)
          then show ?thesis
            using ct Inr r s' d' st by (simp add: doc_def new_document_def)
        qed
      qed
    qed
  qed
qed

lemma length_chunk_rows [simp]: "length (chunk_rows e d cu i cds) = length cds"
  by (simp add: chunk_rows_def)

lemma chunk_rows_nth:
  "k < length cds \<Longrightarrow> chunk_rows e d cu i cds ! k = make_chunk e d cu (i + k) (cds ! k)"
  by (simp add: chunk_rows_def nth_enumerate_eq)

lemma chunk_rows_owner:
  "c \<in> set (chunk_rows e d cu i cds) \<Longrightarrow> chunk_doc_id c = doc_id d \<and> chunk_user_id c = user_id cu"
  by (auto simp: chunk_rows_def make_chunk_def)

lemma map_chunk_doc_id_rows:
  "map chunk_doc_id (chunk_rows e d cu i cds) = replicate (length cds) (doc_id d)"
  by (rule nth_equalityI) (simp_all add: chunk_rows_nth make_chunk_def)

lemmas demo_defs = upload_with_def upload_contract_def get_db_def db_close_def SessionLocal_def
  upload_session_def allowed_content_types_def new_document_def db_add_def db_flush_def
  db_commit_def db_append_def empty_db_def make_chunk_def get_page_def
  demo_env_def alice_def bob_def users_db_def lease_pdf_def short_vector_parse_def
  pageless_parse_def mock_llamacloud_parse_def

text \<open>
  Claim C2. An upload either persists the document and every one of its chunks, or
  persists nothing. Whatever the parsing capability: if the request fails, at any step
  (content type, parsing, the flush of the document, the commit of the chunks), the
  store after it is the store before it, so \<open>list_contracts\<close> and \<open>get_contract\<close>
  answer as before for every user and identifier; if it succeeds, the store has gained
  exactly the new document and one chunk for each parsed chunk, and the response
  counts them.
\<close>

theorem upload_all_or_nothing:
  assumes "upload_with parse e d file cu = (res, d')"
  shows "(\<forall>err. res = Inl err \<longrightarrow>
            d' = d \<and> (\<forall>v cid. list_contracts d' v = list_contracts d v
                            \<and> get_contract d' v cid = get_contract d v cid))
       \<and> (\<forall>r. res = Inr r \<longrightarrow>
            (\<exists>pr. parse e (file_content file) (file_filename file) = Inr pr
               \<and> chunks_processed r = length (pr_chunks pr)
               \<and> users d' = users d
               \<and> documents d' = documents d @ [new_document e file cu]
               \<and> chunks d' = chunks d
                    @ chunk_rows e (new_document e file cu) cu 0 (pr_chunks pr)))"
proof -
  have fail: "d' = d" if "res = Inl err" for err
    using assms that by (simp add: upload_with_fail)
  have ok: "\<exists>pr. parse e (file_content file) (file_filename file) = Inr pr
               \<and> chunks_processed r = length (pr_chunks pr)
               \<and> users d' = users d
               \<and> documents d' = documents d @ [new_document e file cu]
               \<and> chunks d' = chunks d
                    @ chunk_rows e (new_document e file cu) cu 0 (pr_chunks pr)"
    if "res = Inr r" for r
  proof -
    from assms that have "upload_with parse e d file cu = (Inr r, d')" by simp
    from upload_with_ok [OF this] show ?thesis by auto
  qed
  from fail ok show ?thesis by simp
qed

theorem upload_all_or_nothing_witness:
  "fst (upload_with short_vector_parse (demo_env 7 100) users_db lease_pdf alice) = Inl DataError
   \<and> snd (upload_with short_vector_parse (demo_env 7 100) users_db lease_pdf alice) = users_db
   \<and> fst (upload_contract (demo_env 7 100) users_db lease_pdf alice)
       = Inr \<lparr>up_document_id = 7, up_filename = ''lease.pdf'', chunks_processed = 2\<rparr>
   \<and> map doc_id (documents (snd (upload_contract (demo_env 7 100) users_db lease_pdf alice)))
       = [7]
   \<and> map chunk_doc_id (chunks (snd (upload_contract (demo_env 7 100) users_db lease_pdf alice)))
       = [7, 7]"
proof -
  let ?bad = "upload_with short_vector_parse (demo_env 7 100) users_db lease_pdf alice"
  let ?good = "upload_with mock_llamacloud_parse (demo_env 7 100) users_db lease_pdf alice"
  have f1: "fst ?bad = Inl DataError"
    by (simp add: demo_defs)
  then have f: "?bad = (Inl DataError, snd ?bad)"
    by (metis prod.collapse)
  have g1: "fst ?good
      = Inr \<lparr>up_document_id = 7, up_filename = ''lease.pdf'', chunks_processed = 2\<rparr>"
    by (simp add: demo_defs)
  then have g: "?good
      = (Inr \<lparr>up_document_id = 7, up_filename = ''lease.pdf'', chunks_processed = 2\<rparr>,
         snd ?good)"
    by (metis prod.collapse)
  from upload_all_or_nothing [OF f] have 1: "snd ?bad = users_db"
    by simp
  from upload_all_or_nothing [OF g]
  have 2: "documents (snd ?good) = documents users_db @ [new_document (demo_env 7 100) lease_pdf alice]"
    and 3: "\<exists>pr. mock_llamacloud_parse (demo_env 7 100) (file_content lease_pdf)
                  (file_filename lease_pdf) = Inr pr
          \<and> chunks (snd ?good) = chunks users_db
               @ chunk_rows (demo_env 7 100) (new_document (demo_env 7 100) lease_pdf alice)
                   alice 0 (pr_chunks pr)"
    by auto
  have 4: "map doc_id (documents (snd ?good)) = [7]"
    unfolding 2 by (simp add: users_db_def new_document_def demo_env_def)
  from 3 obtain pr where
    pr: "mock_llamacloud_parse (demo_env 7 100) (file_content lease_pdf)
           (file_filename lease_pdf) = Inr pr"
    and cs: "chunks (snd ?good) = chunks users_db
               @ chunk_rows (demo_env 7 100) (new_document (demo_env 7 100) lease_pdf alice)
                   alice 0 (pr_chunks pr)"
    by blast
  from pr have len: "length (pr_chunks pr) = 2"
    by (auto simp: mock_llamacloud_parse_def)
  have 5: "map chunk_doc_id (chunks (snd ?good)) = [7, 7]"
    unfolding cs
    by (simp add: map_chunk_doc_id_rows len users_db_def new_document_def demo_env_def
        numeral_2_eq_2)
  from f1 g1 1 4 5 show ?thesis
    by (simp add: upload_contract_def)
qed

section \<open>The concrete stores\<close>

lemma lease_db_eq:
  "lease_db =
     \<lparr>users = [alice, bob],
      documents =
        [\<lparr>doc_id = 7, doc_user_id = 1, filename = ''lease.pdf'', uploaded_on = 100,
          expiry_date = None, status = ''Active'', risk_score = ''Low''\<rparr>],
      chunks =
        [\<lparr>chunk_id = 70, chunk_doc_id = 7, chunk_user_id = 1,
          text_chunk = ''Termination clause: Either party may terminate with 90 days' notice.'',
          embedding = replicate 384 0,
          metadata = [(''page'', JInt 2), (''contract_name'', JStr ''lease.pdf'')],
          page_number = JInt 2, chunk_created_at = 100\<rparr>,
         \<lparr>chunk_id = 71, chunk_doc_id = 7, chunk_user_id = 1,
          text_chunk = ''Liability cap: Limited to 12 months' fees.'',
          embedding = replicate 384 0,
          metadata = [(''page'', JInt 5), (''contract_name'', JStr ''lease.pdf'')],
          page_number = JInt 5, chunk_created_at = 100\<rparr>]\<rparr>"
  by (simp add: lease_db_def demo_defs)

lemma users_db_signup:
  "users_db =
     snd (signup demo_crypto (demo_env 2 0)
            (snd (signup demo_crypto (demo_env 1 0) empty_db ''alice'' ''a@x.com'' ''pw1''))
            ''bob'' ''b@x.com'' ''pw2'')"
  by (simp add: signup_def signup_session_def get_db_def db_close_def SessionLocal_def
      db_view_def db_add_def db_commit_def db_flush_def db_append_def empty_db_def
      demo_env_def demo_crypto_def users_db_def alice_def bob_def)

lemma reachable_users_db: "reachable demo_crypto users_db"
  unfolding users_db_signup by (intro reach_signup reach_init)

lemma alice_authenticated: "get_current_user demo_crypto users_db ''alice-token'' = Inr alice"
  by (simp add: get_current_user_def demo_crypto_def users_db_def alice_def)

lemma reachable_lease_db: "reachable demo_crypto lease_db"
  unfolding lease_db_def upload_contract_def
  by (rule reach_upload [OF reachable_users_db alice_authenticated])

section \<open>Page numbers\<close>

text \<open>
  Claim C10. In a successful upload, the chunk persisted for the \<open>k\<close>-th parsed chunk
  carries that chunk's metadata, and its page number is 1 when the metadata has no
  \<^verbatim>\<open>"page"\<close> key and the value under \<^verbatim>\<open>"page"\<close> otherwise.
\<close>

theorem upload_page_number:
  assumes "upload_with parse e d file cu = (Inr r, d')"
    and "parse e (file_content file) (file_filename file) = Inr pr"
    and "k < length (pr_chunks pr)"
  shows "length (chunks d') = length (chunks d) + length (pr_chunks pr)
       \<and> metadata (chunks d' ! (length (chunks d) + k)) = cd_metadata (pr_chunks pr ! k)
       \<and> (''page'' \<notin> fst ` set (cd_metadata (pr_chunks pr ! k))
            \<longrightarrow> page_number (chunks d' ! (length (chunks d) + k)) = JInt 1)
       \<and> (\<forall>v. map_of (cd_metadata (pr_chunks pr ! k)) ''page'' = Some v
            \<longrightarrow> page_number (chunks d' ! (length (chunks d) + k)) = v)"
proof -
  from upload_with_ok [OF assms(1)] assms(2)
  have cs: "chunks d' = chunks d @ chunk_rows e (new_document e file cu) cu 0 (pr_chunks pr)"
    by auto
  have nth: "chunks d' ! (length (chunks d) + k)
      = make_chunk e (new_document e file cu) cu k (pr_chunks pr ! k)"
    using assms(3) by (simp add: cs chunk_rows_nth)
  have none: "map_of m ''page'' = None" if "''page'' \<notin> fst ` set m" for m :: "(string \<times> json) list"
    using that by (simp add: map_of_eq_None_iff)
  have len: "length (chunks d') = length (chunks d) + length (pr_chunks pr)"
    by (simp add: cs)
  show ?thesis
    unfolding nth using len by (auto simp: make_chunk_def get_page_def none)
qed

theorem upload_page_number_witness:
  "map page_number
     (chunks (snd (upload_with pageless_parse (demo_env 7 100) users_db lease_pdf alice)))
     = [JInt 1, JInt 7]"
proof -
  let ?up = "upload_with pageless_parse (demo_env 7 100) users_db lease_pdf alice"
  let ?r = "\<lparr>up_document_id = 7, up_filename = ''lease.pdf'', chunks_processed = 2\<rparr>"
  let ?pr = "\<lparr>pr_document_id = 0,
          pr_chunks = [\<lparr>cd_chunk_id = 0, cd_text = ''clause'', cd_embedding = replicate 384 (0::real),
                        cd_metadata = [(''contract_name'', JStr ''lease.pdf'')]\<rparr>,
                       \<lparr>cd_chunk_id = 1, cd_text = ''annex'', cd_embedding = replicate 384 0,
                        cd_metadata = [(''page'', JInt 7)]\<rparr>]\<rparr>"
  have "fst ?up = Inr ?r"
    by (simp add: demo_defs)
  then have u: "?up = (Inr ?r, snd ?up)"
    by (metis prod.collapse)
  have p: "pageless_parse (demo_env 7 100) (file_content lease_pdf) (file_filename lease_pdf)
      = Inr ?pr"
    by (simp add: pageless_parse_def lease_pdf_def)
  have l0: "(0::nat) < length (pr_chunks ?pr)" and l1: "(1::nat) < length (pr_chunks ?pr)"
    by simp_all
  from upload_page_number [OF u p l0] upload_page_number [OF u p l1]
  have "length (chunks (snd ?up)) = 2"
    and "page_number (chunks (snd ?up) ! 0) = JInt 1"
    and "page_number (chunks (snd ?up) ! 1) = JInt 7"
    by (simp_all add: users_db_def)
  then show ?thesis
    by (cases "chunks (snd ?up)"; cases "tl (chunks (snd ?up))"; auto)
qed

section \<open>Signup and login\<close>

text \<open>
  Claim C4. A signup whose email is the email of a registered user fails with
  \<open>HTTPException 400\<close>, and the store after it is the store before it: no second user
  with that email exists.
\<close>

theorem signup_duplicate_email:
  assumes "mail \<in> set (map email (users d))"
  shows "signup cr e d uname mail password
           = (Inl (HTTPException 400 ''Email already registered''), d)"
proof -
  from assms obtain u where "find (\<lambda>u. email u = mail) (users d) = Some u"
    by (cases "find (\<lambda>u. email u = mail) (users d)") (auto simp: find_None_iff)
  then show ?thesis
    by (simp add: signup_def get_db_def signup_session_def SessionLocal_def db_view_def
        db_close_def)
qed

theorem signup_duplicate_email_witness:
  "signup demo_crypto (demo_env 3 50) users_db ''mallory'' ''a@x.com'' ''pw9''
     = (Inl (HTTPException 400 ''Email already registered''), users_db)"
  using signup_duplicate_email [of "''a@x.com''" users_db demo_crypto "demo_env 3 50" "''mallory''" "''pw9''"]
  by (simp add: users_db_def alice_def bob_def)



section \<open>Reading one document\<close>

lemma uuid_in_abc: "uuid_in ''abc'' = None"
  by (simp add: uuid_in_def xdigit_def upt_rec)

lemma uuid_in_7: "uuid_in ''00000000-0000-0000-0000-000000000007'' = Some 7"
  by (simp add: uuid_in_def xdigit_def upt_rec)

lemma uuid_in_8: "uuid_in ''00000000-0000-0000-0000-000000000008'' = Some 8"
  by (simp add: uuid_in_def xdigit_def upt_rec)

text \<open>
  For an identifier the database reads as a uuid, \<open>get_contract\<close> answers
  \<open>HTTPException 404\<close> when no document has the identifier, and when documents have it
  but none of them belongs to the caller; the two answers are the same value. For an
  identifier it does not read as a uuid, the handler ends in the database's error.
\<close>

lemma get_contract_cast_error:
  "uuid_in contract_id = None \<Longrightarrow> get_contract d cu contract_id = Inl DataError"
  by (simp add: get_contract_def)

lemma get_contract_not_found:
  assumes "uuid_in contract_id = Some k"
    and "k \<notin> set (map doc_id (documents d1))"
    and "\<exists>doc \<in> set (documents d2). doc_id doc = k"
    and "\<forall>doc \<in> set (documents d2). doc_id doc = k \<longrightarrow> doc_user_id doc \<noteq> user_id cu"
  shows "get_contract d1 cu contract_id = Inl (HTTPException 404 ''Contract not found'')
       \<and> get_contract d2 cu contract_id = Inl (HTTPException 404 ''Contract not found'')
       \<and> get_contract d1 cu contract_id = get_contract d2 cu contract_id"
proof -
  have 1: "find (\<lambda>doc. doc_id doc = k \<and> doc_user_id doc = user_id cu) (documents d1) = None"
    using assms(2) by (auto simp: find_None_iff)
  have 2: "find (\<lambda>doc. doc_id doc = k \<and> doc_user_id doc = user_id cu) (documents d2) = None"
    using assms(4) by (auto simp: find_None_iff)
  show ?thesis
    by (simp add: get_contract_def assms(1) 1 2)
qed

lemma get_contract_not_found_example:
  "get_contract users_db bob ''00000000-0000-0000-0000-000000000007''
     = Inl (HTTPException 404 ''Contract not found'')
   \<and> get_contract lease_db bob ''00000000-0000-0000-0000-000000000007''
     = Inl (HTTPException 404 ''Contract not found'')"
  using get_contract_not_found [OF uuid_in_7, of users_db lease_db bob]
  by (simp add: lease_db_eq users_db_def bob_def)

text \<open>
  Claim C3 says that \<open>get_contract\<close> answers \<open>HTTPException 404\<close> whenever no document
  has the identifier, and the same when the document is another user's. The code does
  not, at an identifier that is no uuid: no document has the identifier \<^verbatim>\<open>abc\<close>, and
  Bob's request for it ends in \<open>DataError\<close>, while his request for a well-formed identifier
  that no document has is answered with \<open>HTTPException 404\<close>.
\<close>

theorem get_contract_malformed_id:
  "get_contract lease_db bob ''abc'' = Inl DataError
   \<and> get_contract lease_db bob ''00000000-0000-0000-0000-000000000008''
       = Inl (HTTPException 404 ''Contract not found'')"
  by (simp add: get_contract_def uuid_in_abc uuid_in_8 lease_db_eq bob_def)

section \<open>Chunks belong to their document's owner\<close>

lemma signup_tables:
  "documents (snd (signup cr e d uname mail password)) = documents d
   \<and> chunks (snd (signup cr e d uname mail password)) = chunks d"
proof (cases "find (\<lambda>u. email u = mail) (users d)")
  case (Some u)
  then show ?thesis
    by (simp add: signup_def get_db_def signup_session_def SessionLocal_def db_view_def
        db_close_def)
next
  case None
  define s1 where "s1 = db_add (SessionLocal d)
      (UserRow \<lparr>user_id = new_user_id e, username = uname, email = mail,
                password_hash = hashpw cr password (gensalt e), created_at = user_now e\<rparr>)"
  obtain r2 s2 where c: "db_commit s1 = (r2, s2)"
    by (cases "db_commit s1")
  have s1: "store s1 = d" "txn s1 = empty_db" "\<exists>u. pending s1 = [UserRow u]"
    by (simp_all add: s1_def db_add_def SessionLocal_def)
  have "documents (store s2) = documents d \<and> chunks (store s2) = chunks d"
  proof (cases r2)
    case (Some err)
    with c s1 show ?thesis by (simp add: db_commit_fail)
  next
    case n: None
    from db_commit_ok [OF c [unfolded n]] s1 show ?thesis
      by (auto simp: db_append_def empty_db_def)
  qed
  moreover have "users (db_view (SessionLocal d)) = users d"
    by (simp add: db_view_def SessionLocal_def)
  ultimately show ?thesis
    using None c
    by (cases r2) (simp_all add: signup_def get_db_def signup_session_def db_close_def
        Let_def s1_def [symmetric])
qed

lemma db_inv_tables:
  "documents d' = documents d \<Longrightarrow> chunks d' = chunks d \<Longrightarrow> db_inv d \<Longrightarrow> db_inv d'"
  by (simp add: db_inv_def chunk_document_def)

lemma db_inv_empty: "db_inv empty_db"
  by (simp add: db_inv_def empty_db_def)

lemma find_append_fresh:
  "find P xs = Some x \<Longrightarrow> find P (xs @ ys) = Some x"
  by (induction xs) auto

lemma find_append_none:
  "find P xs = None \<Longrightarrow> find P (xs @ ys) = find P ys"
  by (induction xs) (auto split: if_splits)

lemma db_inv_upload:
  assumes inv: "db_inv d"
  shows "db_inv (snd (upload_with parse e d file cu))"
proof -
  obtain res d' where u: "upload_with parse e d file cu = (res, d')"
    by (cases "upload_with parse e d file cu")
  show ?thesis
  proof (cases res)
    case (Inl err)
    from upload_with_fail [OF u [unfolded Inl]] u inv show ?thesis by simp
  next
    case (Inr r)
    define doc where "doc = new_document e file cu"
    from upload_with_ok [OF u [unfolded Inr]] obtain pr :: parse_result where
      fresh: "new_doc_id e \<notin> set (map doc_id (documents d))"
      and d': "d' = \<lparr>users = users d,
               documents = documents d @ [new_document e file cu],
               chunks = chunks d @ chunk_rows e (new_document e file cu) cu 0 (pr_chunks pr)\<rparr>"
      by blast
    have docs: "documents d' = documents d @ [doc]"
      and cs: "chunks d' = chunks d @ chunk_rows e doc cu 0 (pr_chunks pr)"
      by (simp_all add: d' doc_def)
    have did: "doc_id doc = new_doc_id e" and duid: "doc_user_id doc = user_id cu"
      by (simp_all add: doc_def new_document_def)
    have dist: "distinct (map doc_id (documents d'))"
      using inv fresh by (simp add: docs did db_inv_def)
    have old: "case chunk_document d' c of None \<Rightarrow> False
                | Some x \<Rightarrow> doc_user_id x = chunk_user_id c"
      if "c \<in> set (chunks d)" for c
    proof -
      from inv that obtain x where "chunk_document d c = Some x"
        and "doc_user_id x = chunk_user_id c"
        by (auto simp: db_inv_def split: option.splits)
      then show ?thesis
        by (simp add: chunk_document_def docs find_append_fresh)
    qed
    have new: "case chunk_document d' c of None \<Rightarrow> False
                | Some x \<Rightarrow> doc_user_id x = chunk_user_id c"
      if "c \<in> set (chunk_rows e doc cu 0 (pr_chunks pr))" for c
    proof -
      from chunk_rows_owner [OF that]
      have c: "chunk_doc_id c = doc_id doc" "chunk_user_id c = user_id cu"
        by simp_all
      have "find (\<lambda>x. doc_id x = chunk_doc_id c) (documents d) = None"
        using fresh by (force simp: find_None_iff c did)
      then show ?thesis
        by (simp add: chunk_document_def docs find_append_none c duid)
    qed
    from dist old new have "db_inv d'"
      by (auto simp: db_inv_def cs)
    with u show ?thesis by simp
  qed
qed

lemma reachable_db_inv: "reachable cr d \<Longrightarrow> db_inv d"
proof (induction rule: reachable.induct)
  case reach_init
  show ?case by (rule db_inv_empty)
next
  case (reach_signup d e uname mail password)
  then show ?case
    using signup_tables [of cr e d uname mail password] by (blast intro: db_inv_tables)
next
  case (reach_upload d credentials u parse e f)
  then show ?case by (simp add: db_inv_upload)
qed

text \<open>
  Claim C6. In every store the routes can produce, each chunk's document exists and its
  owning user is the chunk's owning user. The upload route is the only one that creates
  chunks; it gives each the identifier of the document it has just inserted and the
  identifier of the authenticated user, and the primary key keeps that document
  identifier away from every earlier row.
\<close>

theorem chunk_owner_is_document_owner:
  assumes "reachable cr d" and "c \<in> set (chunks d)"
  shows "\<exists>doc. chunk_document d c = Some doc \<and> doc_user_id doc = chunk_user_id c"
  using reachable_db_inv [OF assms(1)] assms(2)
  by (auto simp: db_inv_def split: option.splits)

theorem chunk_owner_is_document_owner_witness:
  "reachable demo_crypto lease_db
   \<and> hd (chunks lease_db) \<in> set (chunks lease_db)
   \<and> (\<exists>doc. chunk_document lease_db (hd (chunks lease_db)) = Some doc
         \<and> doc_user_id doc = chunk_user_id (hd (chunks lease_db)))"
proof -
  have m: "hd (chunks lease_db) \<in> set (chunks lease_db)"
    by (simp add: lease_db_eq)
  from chunk_owner_is_document_owner [OF reachable_lease_db m] reachable_lease_db m
  show ?thesis by simp
qed

section \<open>Answers are built from the caller's chunks\<close>

lemma build_sources_nth:
  "build_sources d i cs = Inr srcs \<Longrightarrow>
     length srcs = length cs \<and>
     (\<forall>k < length cs. \<exists>doc. chunk_document d (cs ! k) = Some doc \<and>
        srcs ! k = \<lparr>contract_name = filename doc, excerpt = text_chunk (cs ! k),
                     page = page_number (cs ! k), relevance = 85 + (i + int k) * 3\<rparr>)"
proof (induction cs arbitrary: i srcs)
  case Nil
  then show ?case by simp
next
  case (Cons c cs)
  from Cons.prems obtain doc rest where
    doc: "chunk_document d c = Some doc"
    and rest: "build_sources d (i + 1) cs = Inr rest"
    and srcs: "srcs = \<lparr>contract_name = filename doc, excerpt = text_chunk c,
                       page = page_number c, relevance = 85 + i * 3\<rparr> # rest"
    by (auto split: option.splits sum.splits)
  from Cons.IH [OF rest] have len: "length rest = length cs"
    and nth: "\<And>k. k < length cs \<Longrightarrow> \<exists>doc. chunk_document d (cs ! k) = Some doc \<and>
        rest ! k = \<lparr>contract_name = filename doc, excerpt = text_chunk (cs ! k),
                     page = page_number (cs ! k), relevance = 85 + (i + 1 + int k) * 3\<rparr>"
    by simp_all
  show ?case
  proof (intro conjI allI impI)
    show "length srcs = length (c # cs)" by (simp add: srcs len)
  next
    fix k assume k: "k < length (c # cs)"
    show "\<exists>doc. chunk_document d ((c # cs) ! k) = Some doc \<and>
        srcs ! k = \<lparr>contract_name = filename doc, excerpt = text_chunk ((c # cs) ! k),
                     page = page_number ((c # cs) ! k), relevance = 85 + (i + int k) * 3\<rparr>"
    proof (cases k)
      case 0
      then show ?thesis by (simp add: srcs doc)
    next
      case (Suc j)
      with k have "j < length cs" by simp
      from nth [OF this] Suc show ?thesis
        by (auto simp: srcs algebra_simps)
    qed
  qed
qed

lemma build_sources_total:
  "\<forall>c \<in> set cs. chunk_document d c \<noteq> None \<Longrightarrow> \<exists>srcs. build_sources d i cs = Inr srcs"
proof (induction cs arbitrary: i)
  case Nil
  show ?case by simp
next
  case (Cons c cs)
  then obtain doc where "chunk_document d c = Some doc" by auto
  moreover from Cons obtain rest where "build_sources d (i + 1) cs = Inr rest" by force
  ultimately show ?case by simp
qed

lemma user_chunks_subset:
  "c \<in> set (take n (user_chunks d cu)) \<Longrightarrow> c \<in> set (chunks d) \<and> chunk_user_id c = user_id cu"
  by (auto simp: user_chunks_def dest!: in_set_takeD)

lemma chunk_document_Some:
  "chunk_document d c = Some doc \<Longrightarrow> doc \<in> set (documents d) \<and> doc_id doc = chunk_doc_id c"
  by (auto simp: chunk_document_def find_Some_iff)

lemma distinct_doc_id_unique:
  "distinct (map doc_id (documents d)) \<Longrightarrow> x \<in> set (documents d) \<Longrightarrow> y \<in> set (documents d)
     \<Longrightarrow> doc_id x = doc_id y \<Longrightarrow> x = y"
  by (meson distinct_map inj_onD)

lemma query_contracts_ok:
  assumes "db_inv d"
  shows "\<exists>srcs. build_sources d 0 (take 3 (user_chunks d cu)) = Inr srcs
           \<and> query_contracts e d cu q
               = Inr \<lparr>answer = answer_text q, confidence = 94, sources = srcs\<rparr>"
proof -
  have "\<forall>c \<in> set (take 3 (user_chunks d cu)). chunk_document d c \<noteq> None"
  proof
    fix c assume "c \<in> set (take 3 (user_chunks d cu))"
    then have "c \<in> set (chunks d)" by (simp add: user_chunks_subset)
    with assms show "chunk_document d c \<noteq> None"
      by (auto simp: db_inv_def split: option.splits)
  qed
  from build_sources_total [OF this] obtain srcs
    where "build_sources d 0 (take 3 (user_chunks d cu)) = Inr srcs" by blast
  then show ?thesis by (simp add: query_contracts_def)
qed

lemma ask_alice_lease:
  "query_contracts (demo_env 9 200) lease_db alice ''termination''
     = Inr \<lparr>answer = answer_text ''termination'', confidence = 94,
            sources =
              [\<lparr>contract_name = ''lease.pdf'',
                excerpt = ''Termination clause: Either party may terminate with 90 days' notice.'',
                page = JInt 2, relevance = 85\<rparr>,
               \<lparr>contract_name = ''lease.pdf'',
                excerpt = ''Liability cap: Limited to 12 months' fees.'',
                page = JInt 5, relevance = 88\<rparr>]\<rparr>"
  by (simp add: query_contracts_def user_chunks_def lease_db_eq alice_def chunk_document_def)

lemma ask_bob_lease:
  "query_contracts (demo_env 9 200) lease_db bob ''termination''
     = Inr \<lparr>answer = answer_text ''termination'', confidence = 94, sources = []\<rparr>"
  by (simp add: query_contracts_def user_chunks_def lease_db_eq bob_def)

lemma db_inv_lease_db: "db_inv lease_db"
  by (rule reachable_db_inv [OF reachable_lease_db])

text \<open>
  Claim C1. In a store that satisfies the ownership invariant, \<open>query_contracts\<close> returns
  a response, and each of its sources is made from a chunk of the store whose owning
  user is the caller: the excerpt and the page are that chunk's, the contract name is
  the filename of a document of the caller, and every document with the chunk's
  document identifier belongs to the caller, so none belongs to another user.
\<close>

theorem ask_sources_owned:
  assumes "db_inv d"
  shows "\<exists>r. query_contracts e d cu q = Inr r \<and>
     list_all2
       (\<lambda>s c. c \<in> set (chunks d) \<and> chunk_user_id c = user_id cu
          \<and> excerpt s = text_chunk c \<and> page s = page_number c
          \<and> (\<exists>doc \<in> set (documents d). doc_id doc = chunk_doc_id c
                \<and> doc_user_id doc = user_id cu \<and> contract_name s = filename doc)
          \<and> (\<forall>doc \<in> set (documents d). doc_id doc = chunk_doc_id c
                \<longrightarrow> doc_user_id doc = user_id cu))
       (sources r) (take 3 (user_chunks d cu))"
proof -
  let ?cs = "take 3 (user_chunks d cu)"
  from query_contracts_ok [OF assms] obtain srcs where
    bs: "build_sources d 0 ?cs = Inr srcs"
    and q: "query_contracts e d cu q
               = Inr \<lparr>answer = answer_text q, confidence = 94, sources = srcs\<rparr>"
    by blast
  from build_sources_nth [OF bs] have len: "length srcs = length ?cs"
    and nth: "\<And>k. k < length ?cs \<Longrightarrow> \<exists>doc. chunk_document d (?cs ! k) = Some doc \<and>
        srcs ! k = \<lparr>contract_name = filename doc, excerpt = text_chunk (?cs ! k),
                     page = page_number (?cs ! k), relevance = 85 + (0 + int k) * 3\<rparr>"
    by blast+
  have "list_all2
       (\<lambda>s c. c \<in> set (chunks d) \<and> chunk_user_id c = user_id cu
          \<and> excerpt s = text_chunk c \<and> page s = page_number c
          \<and> (\<exists>doc \<in> set (documents d). doc_id doc = chunk_doc_id c
                \<and> doc_user_id doc = user_id cu \<and> contract_name s = filename doc)
          \<and> (\<forall>doc \<in> set (documents d). doc_id doc = chunk_doc_id c
                \<longrightarrow> doc_user_id doc = user_id cu))
       srcs ?cs"
  proof (rule list_all2_all_nthI [OF len])
    fix k assume "k < length srcs"
    then have k: "k < length ?cs" by (simp add: len)
    let ?c = "?cs ! k"
    from k have mem: "?c \<in> set ?cs" by (rule nth_mem)
    then have own: "?c \<in> set (chunks d)" "chunk_user_id ?c = user_id cu"
      by (simp_all add: user_chunks_subset)
    from nth [OF k] obtain doc where
      cd: "chunk_document d ?c = Some doc"
      and s: "srcs ! k = \<lparr>contract_name = filename doc, excerpt = text_chunk ?c,
                     page = page_number ?c, relevance = 85 + (0 + int k) * 3\<rparr>"
      by blast
    from chunk_document_Some [OF cd] have doc: "doc \<in> set (documents d)" "doc_id doc = chunk_doc_id ?c"
      by simp_all
    from assms own(1) cd have du: "doc_user_id doc = chunk_user_id ?c"
      by (auto simp: db_inv_def split: option.splits)
    have uniq: "doc_user_id x = user_id cu" if "x \<in> set (documents d)" "doc_id x = chunk_doc_id ?c" for x
    proof -
      from assms have "distinct (map doc_id (documents d))" by (simp add: db_inv_def)
      from distinct_doc_id_unique [OF this that(1) doc(1)] that(2) doc(2) have "x = doc" by simp
      with du own(2) show ?thesis by simp
    qed
    show "?c \<in> set (chunks d) \<and> chunk_user_id ?c = user_id cu
          \<and> excerpt (srcs ! k) = text_chunk ?c \<and> page (srcs ! k) = page_number ?c
          \<and> (\<exists>doc \<in> set (documents d). doc_id doc = chunk_doc_id ?c
                \<and> doc_user_id doc = user_id cu \<and> contract_name (srcs ! k) = filename doc)
          \<and> (\<forall>doc \<in> set (documents d). doc_id doc = chunk_doc_id ?c
                \<longrightarrow> doc_user_id doc = user_id cu)"
      using own doc du uniq by (auto simp: s)
  qed
  with q show ?thesis by simp
qed

theorem ask_sources_owned_witness:
  "db_inv lease_db
   \<and> map contract_name
        (sources (projr (query_contracts (demo_env 9 200) lease_db alice ''termination'')))
       = [''lease.pdf'', ''lease.pdf'']
   \<and> sources (projr (query_contracts (demo_env 9 200) lease_db bob ''termination'')) = []"
proof -
  from ask_sources_owned [OF db_inv_lease_db, of "demo_env 9 200" bob "''termination''"]
  obtain r where r: "query_contracts (demo_env 9 200) lease_db bob ''termination'' = Inr r"
    and l: "list_all2 (\<lambda>s c. c \<in> set (chunks lease_db) \<and> chunk_user_id c = user_id bob
          \<and> excerpt s = text_chunk c \<and> page s = page_number c
          \<and> (\<exists>doc \<in> set (documents lease_db). doc_id doc = chunk_doc_id c
                \<and> doc_user_id doc = user_id bob \<and> contract_name s = filename doc)
          \<and> (\<forall>doc \<in> set (documents lease_db). doc_id doc = chunk_doc_id c
                \<longrightarrow> doc_user_id doc = user_id bob))
       (sources r) (take 3 (user_chunks lease_db bob))"
    by blast
  have "user_chunks lease_db bob = []"
    by (simp add: user_chunks_def lease_db_eq bob_def)
  with l have "sources r = []" by simp
  with r have b: "sources (projr (query_contracts (demo_env 9 200) lease_db bob ''termination'')) = []"
    by simp
  have a: "map contract_name
        (sources (projr (query_contracts (demo_env 9 200) lease_db alice ''termination'')))
       = [''lease.pdf'', ''lease.pdf'']"
    by (simp add: ask_alice_lease)
  from db_inv_lease_db a b show ?thesis by simp
qed

section \<open>The order and the scores of the sources\<close>

lemma build_sources_embedding:
  assumes "documents d' = documents d"
  shows "build_sources d' i (map (\<lambda>c. c\<lparr>embedding := g c\<rparr>) cs) = build_sources d i cs"
  using assms by (induction cs arbitrary: i) (simp_all add: chunk_document_def split: option.splits sum.splits)

lemma user_chunks_embedding:
  "user_chunks (d\<lparr>chunks := map (\<lambda>c. c\<lparr>embedding := g c\<rparr>) (chunks d)\<rparr>) cu
     = map (\<lambda>c. c\<lparr>embedding := g c\<rparr>) (user_chunks d cu)"
  by (simp add: user_chunks_def filter_map comp_def take_map)

lemma query_contracts_embedding:
  "query_contracts e' (d\<lparr>chunks := map (\<lambda>c. c\<lparr>embedding := g c\<rparr>) (chunks d)\<rparr>) cu q
     = query_contracts e d cu q"
  by (simp add: query_contracts_def user_chunks_embedding take_map build_sources_embedding)

text \<open>
  Claim C7, as the code has it. The sources are the first three of the caller's chunks
  in storage order; the source at position \<open>k\<close> has relevance \<open>85 + 3 k\<close>, so the scores
  rise with the position; and neither the query embedding nor the embeddings of the
  stored chunks have any influence on the response.
\<close>

theorem ask_sources_store_order:
  assumes "db_inv d"
  shows "\<exists>r. query_contracts e d cu q = Inr r
     \<and> map excerpt (sources r)
         = map text_chunk (take 3 (filter (\<lambda>c. chunk_user_id c = user_id cu) (chunks d)))
     \<and> map relevance (sources r) = map (\<lambda>k. 85 + 3 * int k) [0..<length (sources r)]
     \<and> query_contracts e' (d\<lparr>chunks := map (\<lambda>c. c\<lparr>embedding := g c\<rparr>) (chunks d)\<rparr>) cu q
         = Inr r"
proof -
  let ?cs = "take 3 (user_chunks d cu)"
  from query_contracts_ok [OF assms] obtain srcs where
    bs: "build_sources d 0 ?cs = Inr srcs"
    and q: "query_contracts e d cu q
               = Inr \<lparr>answer = answer_text q, confidence = 94, sources = srcs\<rparr>"
    by blast
  from build_sources_nth [OF bs] have len: "length srcs = length ?cs"
    and nth: "\<And>k. k < length ?cs \<Longrightarrow> \<exists>doc. chunk_document d (?cs ! k) = Some doc \<and>
        srcs ! k = \<lparr>contract_name = filename doc, excerpt = text_chunk (?cs ! k),
                     page = page_number (?cs ! k), relevance = 85 + (0 + int k) * 3\<rparr>"
    by blast+
  have cs: "?cs = take 3 (filter (\<lambda>c. chunk_user_id c = user_id cu) (chunks d))"
    by (simp add: user_chunks_def)
  have ex: "map excerpt srcs = map text_chunk ?cs"
  proof (rule nth_equalityI)
    show "length (map excerpt srcs) = length (map text_chunk ?cs)" by (simp add: len)
  next
    fix k assume "k < length (map excerpt srcs)"
    then have k: "k < length ?cs" by (simp add: len)
    from nth [OF k] show "map excerpt srcs ! k = map text_chunk ?cs ! k"
      using k len by auto
  qed
  have rel: "map relevance srcs = map (\<lambda>k. 85 + 3 * int k) [0..<length srcs]"
  proof (rule nth_equalityI)
    show "length (map relevance srcs) = length (map (\<lambda>k. 85 + 3 * int k) [0..<length srcs])"
      by simp
  next
    fix k assume "k < length (map relevance srcs)"
    then have k: "k < length ?cs" by (simp add: len)
    from nth [OF k] show "map relevance srcs ! k = map (\<lambda>k. 85 + 3 * int k) [0..<length srcs] ! k"
      using k len by auto
  qed
  from q ex rel show ?thesis
    using query_contracts_embedding [where e = e and e' = e' and d = d and g = g and cu = cu
        and q = q]
    by (simp add: cs [symmetric])
qed

theorem ask_sources_store_order_witness:
  "db_inv lease_db
   \<and> map excerpt (sources (projr (query_contracts (demo_env 9 200) lease_db alice ''renewal'')))
       = [''Termination clause: Either party may terminate with 90 days' notice.'',
          ''Liability cap: Limited to 12 months' fees.'']
   \<and> map relevance (sources (projr (query_contracts (demo_env 9 200) lease_db alice ''renewal'')))
       = [85, 88]"
proof -
  from ask_sources_store_order [OF db_inv_lease_db, of "demo_env 9 200" alice "''renewal''"
      "demo_env 9 200" embedding]
  obtain r where r: "query_contracts (demo_env 9 200) lease_db alice ''renewal'' = Inr r"
    and ex: "map excerpt (sources r)
         = map text_chunk (take 3 (filter (\<lambda>c. chunk_user_id c = user_id alice) (chunks lease_db)))"
    and rel: "map relevance (sources r) = map (\<lambda>k. 85 + 3 * int k) [0..<length (sources r)]"
    by blast
  from ex have ex': "map excerpt (sources r)
       = [''Termination clause: Either party may terminate with 90 days' notice.'',
          ''Liability cap: Limited to 12 months' fees.'']"
    by (simp add: lease_db_eq alice_def)
  then have "length (sources r) = 2"
    by (metis length_map length_Cons list.size(3) numeral_2_eq_2)
  with rel have "map relevance (sources r) = [85, 88]"
    by (simp add: upt_rec)
  with ex' r db_inv_lease_db show ?thesis by simp
qed

text \<open>
  Claim C7 as stated fails: for Alice's two chunks the first source has relevance 85 and
  the second 88, so the highest relevance is not first.
\<close>

theorem ask_ranking_counterexample:
  "query_contracts (demo_env 9 200) lease_db alice ''termination''
     = Inr \<lparr>answer = answer_text ''termination'', confidence = 94,
            sources =
              [\<lparr>contract_name = ''lease.pdf'',
                excerpt = ''Termination clause: Either party may terminate with 90 days' notice.'',
                page = JInt 2, relevance = 85\<rparr>,
               \<lparr>contract_name = ''lease.pdf'',
                excerpt = ''Liability cap: Limited to 12 months' fees.'',
                page = JInt 5, relevance = 88\<rparr>]\<rparr>
   \<and> \<not> sorted (rev (map relevance
          (sources (projr (query_contracts (demo_env 9 200) lease_db alice ''termination'')))))"
  by (simp add: ask_alice_lease)

section \<open>A caller without chunks\<close>

text \<open>
  Claim C8, as the code has it. For a caller who owns no chunk, \<open>query_contracts\<close> does
  not fail: it returns no sources, with the fixed answer text and the fixed confidence 94.
\<close>

theorem ask_no_chunks:
  assumes "filter (\<lambda>c. chunk_user_id c = user_id cu) (chunks d) = []"
  shows "query_contracts e d cu q
           = Inr \<lparr>answer = answer_text q, confidence = 94, sources = []\<rparr>"
  using assms by (simp add: query_contracts_def user_chunks_def)

theorem ask_no_chunks_witness:
  "filter (\<lambda>c. chunk_user_id c = user_id bob) (chunks lease_db) = []
   \<and> query_contracts (demo_env 9 200) lease_db bob ''termination''
       = Inr \<lparr>answer = answer_text ''termination'', confidence = 94, sources = []\<rparr>"
proof -
  have f: "filter (\<lambda>c. chunk_user_id c = user_id bob) (chunks lease_db) = []"
    by (simp add: lease_db_eq bob_def)
  from ask_no_chunks [OF f] f show ?thesis by simp
qed

text \<open>
  Claim C8 as stated fails on the confidence: Bob, who owns no chunk, is answered with
  confidence 94 and the same answer text as Alice, whose two chunks are returned as
  sources.
\<close>

theorem ask_no_chunks_confidence_counterexample:
  "query_contracts (demo_env 9 200) lease_db bob ''termination''
     = Inr \<lparr>answer = answer_text ''termination'', confidence = 94, sources = []\<rparr>
   \<and> confidence (projr (query_contracts (demo_env 9 200) lease_db alice ''termination'')) = 94
   \<and> answer (projr (query_contracts (demo_env 9 200) lease_db alice ''termination''))
       = answer_text ''termination''"
  by (simp add: ask_alice_lease ask_bob_lease)

section \<open>Listing documents\<close>

lemma pair_db_eq:
  "pair_db =
     \<lparr>users = [alice, bob],
      documents = documents lease_db @
        [\<lparr>doc_id = 8, doc_user_id = 1, filename = ''lease.pdf'', uploaded_on = 150,
          expiry_date = None, status = ''Active'', risk_score = ''Low''\<rparr>],
      chunks = chunks lease_db @
        [\<lparr>chunk_id = 80, chunk_doc_id = 8, chunk_user_id = 1,
          text_chunk = ''Termination clause: Either party may terminate with 90 days' notice.'',
          embedding = replicate 384 0,
          metadata = [(''page'', JInt 2), (''contract_name'', JStr ''lease.pdf'')],
          page_number = JInt 2, chunk_created_at = 150\<rparr>,
         \<lparr>chunk_id = 81, chunk_doc_id = 8, chunk_user_id = 1,
          text_chunk = ''Liability cap: Limited to 12 months' fees.'',
          embedding = replicate 384 0,
          metadata = [(''page'', JInt 5), (''contract_name'', JStr ''lease.pdf'')],
          page_number = JInt 5, chunk_created_at = 150\<rparr>]\<rparr>"
  by (simp add: pair_db_def lease_db_eq demo_defs)

lemma pair_db_users: "users pair_db = [alice, bob]"
  by (simp add: pair_db_eq)

lemma alice_authenticated_pair: "get_current_user demo_crypto pair_db ''alice-token'' = Inr alice"
  by (simp add: get_current_user_def demo_crypto_def pair_db_users alice_def)

lemma alice_authenticated_lease: "get_current_user demo_crypto lease_db ''alice-token'' = Inr alice"
  by (simp add: get_current_user_def demo_crypto_def lease_db_eq alice_def)

lemma reachable_pair_db: "reachable demo_crypto pair_db"
  unfolding pair_db_def upload_contract_def
  by (rule reach_upload [OF reachable_lease_db alice_authenticated_lease])

lemma reachable_clock_db: "reachable demo_crypto clock_db"
  unfolding clock_db_def upload_contract_def
  by (rule reach_upload [OF reachable_pair_db alice_authenticated_pair])

lemma clock_db_documents:
  "documents clock_db =
     [\<lparr>doc_id = 7, doc_user_id = 1, filename = ''lease.pdf'', uploaded_on = 100,
       expiry_date = None, status = ''Active'', risk_score = ''Low''\<rparr>,
      \<lparr>doc_id = 8, doc_user_id = 1, filename = ''lease.pdf'', uploaded_on = 150,
       expiry_date = None, status = ''Active'', risk_score = ''Low''\<rparr>,
      \<lparr>doc_id = 9, doc_user_id = 1, filename = ''lease.pdf'', uploaded_on = 120,
       expiry_date = None, status = ''Active'', risk_score = ''Low''\<rparr>]"
  by (simp add: clock_db_def pair_db_eq lease_db_eq demo_defs)

lemma pair_db_documents:
  "documents pair_db =
     [\<lparr>doc_id = 7, doc_user_id = 1, filename = ''lease.pdf'', uploaded_on = 100,
       expiry_date = None, status = ''Active'', risk_score = ''Low''\<rparr>,
      \<lparr>doc_id = 8, doc_user_id = 1, filename = ''lease.pdf'', uploaded_on = 150,
       expiry_date = None, status = ''Active'', risk_score = ''Low''\<rparr>]"
  by (simp add: pair_db_eq lease_db_eq)

text \<open>
  Claim C9, as the code has it. \<open>list_contracts\<close> returns exactly the caller's documents,
  in storage order: it applies no ordering of its own, so the result is ordered by
  upload timestamp (in either direction \<open>R\<close>) whenever the stored rows are.
\<close>

theorem list_contracts_store_order:
  "list_contracts d cu
     = map summary_of (filter (\<lambda>doc. doc_user_id doc = user_id cu) (documents d))
   \<and> set (list_contracts d cu)
       = summary_of ` {doc \<in> set (documents d). doc_user_id doc = user_id cu}
   \<and> (sorted_wrt (\<lambda>a b. R (uploaded_on a) (uploaded_on b)) (documents d)
        \<longrightarrow> sorted_wrt (\<lambda>a b. R (cs_uploaded_on a) (cs_uploaded_on b)) (list_contracts d cu))"
proof -
  have "sorted_wrt (\<lambda>a b. R (cs_uploaded_on a) (cs_uploaded_on b)) (list_contracts d cu)"
    if "sorted_wrt (\<lambda>a b. R (uploaded_on a) (uploaded_on b)) (documents d)"
  proof -
    from that have "sorted_wrt (\<lambda>a b. R (uploaded_on a) (uploaded_on b))
        (filter (\<lambda>doc. doc_user_id doc = user_id cu) (documents d))"
      by (rule sorted_wrt_filter)
    then show ?thesis
      by (simp add: list_contracts_def sorted_wrt_map summary_of_def)
  qed
  then show ?thesis
    by (auto simp: list_contracts_def)
qed

theorem list_contracts_store_order_witness:
  "sorted_wrt (\<lambda>a b. uploaded_on a \<le> uploaded_on b) (documents pair_db)
   \<and> map cs_uploaded_on (list_contracts pair_db alice) = [100, 150]
   \<and> sorted_wrt (\<lambda>a b. cs_uploaded_on a \<le> cs_uploaded_on b) (list_contracts pair_db alice)"
proof -
  have s: "sorted_wrt (\<lambda>a b. uploaded_on a \<le> uploaded_on b) (documents pair_db)"
    by (simp add: pair_db_documents)
  note t = list_contracts_store_order [of pair_db alice "(\<le>)"]
  from t s
  have o: "sorted_wrt (\<lambda>a b. cs_uploaded_on a \<le> cs_uploaded_on b) (list_contracts pair_db alice)"
    by blast
  from t have "list_contracts pair_db alice
          = map summary_of (filter (\<lambda>doc. doc_user_id doc = user_id alice) (documents pair_db))"
    by (rule conjunct1)
  then have "map cs_uploaded_on (list_contracts pair_db alice) = [100, 150]"
    by (simp add: pair_db_documents alice_def summary_of_def)
  with s o show ?thesis by simp
qed

text \<open>
  Claim C9 as stated fails: after three uploads by Alice with the clock reading 100, 150
  and 120, the list has the timestamps in that order, neither ascending nor descending.
\<close>

theorem list_contracts_order_counterexample:
  "map cs_uploaded_on (list_contracts clock_db alice) = [100, 150, 120]
   \<and> \<not> sorted (map cs_uploaded_on (list_contracts clock_db alice))
   \<and> \<not> sorted (rev (map cs_uploaded_on (list_contracts clock_db alice)))"
proof -
  have "map cs_uploaded_on (list_contracts clock_db alice) = [100, 150, 120]"
    by (simp add: list_contracts_def clock_db_documents alice_def summary_of_def)
  then show ?thesis by simp
qed

end
